theory Spec2Isabelle
  imports Complex_Main "HOL-Library.AList"
begin

section \<open>Browser storage shared by the managers of script.js\<close>

text \<open>
  The script keeps two keys in \<^verbatim>\<open>localStorage\<close>: \<^verbatim>\<open>theme\<close> (a plain string) and
  \<^verbatim>\<open>photoLikes\<close> (the JSON text of an object from photo titles to numbers).
  A key that is absent reads as \<^verbatim>\<open>null\<close>, modelled by \<open>None\<close>.
  The JSON text is represented by the object it encodes, an association list with one
  entry per key; \<^verbatim>\<open>JSON.parse\<close> and \<^verbatim>\<open>JSON.stringify\<close> are the browser's and are
  taken to be inverse to each other on such objects. The key holds what the script
  wrote (an object) or nothing. Titles are taken to be ordinary property names, which
  leaves out \<^verbatim>\<open>__proto__\<close>. No statement below depends on the order of the entries.
\<close>

type_synonym likes_object = "(string \<times> int) list"

record storage =
  theme_item :: "string option"
  photoLikes_item :: "likes_object option"

text \<open>\<^verbatim>\<open>localStorage.getItem(k) || d\<close>: \<^verbatim>\<open>null\<close> and the empty string are falsy.\<close>

definition truthy :: "string option \<Rightarrow> bool" where
  "truthy v = (case v of None \<Rightarrow> False | Some s \<Rightarrow> s \<noteq> [])"

definition or_else :: "string option \<Rightarrow> string \<Rightarrow> string" where
  "or_else v d = (case v of None \<Rightarrow> d | Some s \<Rightarrow> if s = [] then d else s)"

section \<open>ThemeManager\<close>

datatype glyph = Sun | Moon

text \<open>
  What the ThemeManager reads and writes outside itself: the storage, the
  \<^verbatim>\<open>data-theme\<close> attribute of the document element, the text of the icon, the
  transition style of the body, and the system colour scheme
  (\<open>matchMedia = None\<close> when \<^verbatim>\<open>window.matchMedia\<close> does not exist, otherwise whether
  \<^verbatim>\<open>(prefers-color-scheme: dark)\<close> matches). The markup is taken to provide the
  toggle control and its icon.
\<close>

record browser =
  localStorage :: storage
  data_theme :: "string option"
  theme_icon :: "glyph option"
  body_transition :: string
  matchMedia :: "bool option"

record theme_manager =
  currentTheme :: string
  doc :: browser

definition updateThemeIcon :: "string \<Rightarrow> glyph" where
  "updateThemeIcon theme = (if theme = ''dark'' then Sun else Moon)"

definition applyTheme :: "string \<Rightarrow> browser \<Rightarrow> browser" where
  "applyTheme theme b =
     b\<lparr>data_theme := Some theme,
       theme_icon := Some (updateThemeIcon theme),
       localStorage := (localStorage b)\<lparr>theme_item := Some theme\<rparr>\<rparr>"

definition toggleTheme :: "theme_manager \<Rightarrow> theme_manager" where
  "toggleTheme m =
     (let t = (if currentTheme m = ''dark'' then ''light'' else ''dark'')
      in \<lparr>currentTheme = t,
          doc = (applyTheme t (doc m))
                  \<lparr>body_transition := ''background-color 0.3s ease, color 0.3s ease''\<rparr>\<rparr>)"

text \<open>The handler of the media query's \<^verbatim>\<open>change\<close> event; \<open>matches\<close> is \<^verbatim>\<open>e.matches\<close>.\<close>

definition systemThemeChange :: "bool \<Rightarrow> theme_manager \<Rightarrow> theme_manager" where
  "systemThemeChange matches m =
     (if \<not> truthy (theme_item (localStorage (doc m)))
      then (let t = (if matches then ''dark'' else ''light'')
            in \<lparr>currentTheme = t, doc = applyTheme t (doc m)\<rparr>)
      else m)"

text \<open>The constructor followed by \<^verbatim>\<open>init\<close>: the stored flag or \<^verbatim>\<open>'light'\<close> is applied.\<close>

definition ThemeManager :: "browser \<Rightarrow> theme_manager" where
  "ThemeManager b =
     (let t = or_else (theme_item (localStorage b)) ''light''
      in \<lparr>currentTheme = t, doc = applyTheme t b\<rparr>)"

text \<open>
  The events that reach a constructed ThemeManager. The media query listener is bound
  only when \<^verbatim>\<open>window.matchMedia\<close> exists; the timer of \<^verbatim>\<open>toggleTheme\<close> clears the
  transition style.
\<close>

datatype theme_event = ToggleClick | SystemChange bool | TransitionTimer

fun theme_step :: "theme_manager \<Rightarrow> theme_event \<Rightarrow> theme_manager" where
  "theme_step m ToggleClick = toggleTheme m"
| "theme_step m (SystemChange matches) =
     (if matchMedia (doc m) = None then m
      else systemThemeChange matches (m\<lparr>doc := (doc m)\<lparr>matchMedia := Some matches\<rparr>\<rparr>))"
| "theme_step m TransitionTimer = m\<lparr>doc := (doc m)\<lparr>body_transition := []\<rparr>\<rparr>"

definition theme_run :: "theme_manager \<Rightarrow> theme_event list \<Rightarrow> theme_manager" where
  "theme_run m es = foldl theme_step m es"


definition fresh_browser :: "bool option \<Rightarrow> string option \<Rightarrow> browser" where
  "fresh_browser mm st =
     \<lparr>localStorage = \<lparr>theme_item = st, photoLikes_item = None\<rparr>,
      data_theme = None, theme_icon = None, body_transition = [], matchMedia = mm\<rparr>"

text \<open>What a theme application leaves behind: the manager's field, the attribute, the icon and the stored flag.\<close>

definition applied :: "theme_manager \<Rightarrow> string \<times> string option \<times> glyph option \<times> string option" where
  "applied m =
     (currentTheme m, data_theme (doc m), theme_icon (doc m), theme_item (localStorage (doc m)))"

section \<open>Numbers in the like counter\<close>















section \<open>GalleryManager: filtering and likes\<close>

text \<open>
  A \<^verbatim>\<open>.photo-item\<close> element with the parts the script touches. The markup is taken to
  provide the heading and the \<^verbatim>\<open>.photo-likes\<close> element of every item.
  \<open>category\<close> is \<^verbatim>\<open>dataset.category\<close>, \<open>None\<close> when the attribute is missing.
  The timer that clears the animation of the like button is left out.
\<close>

record photo_item =
  category :: "string option"
  classList :: "string list"
  item_animation :: string
  title :: string
  likesText :: string
  likeButton_animation :: string

record gallery =
  photoItems :: "photo_item list"
  currentFilter :: "string option"
  store :: storage

definition classList_remove :: "string \<Rightarrow> string list \<Rightarrow> string list" where
  "classList_remove c cl = filter (\<lambda>x. x \<noteq> c) cl"

definition classList_add :: "string \<Rightarrow> string list \<Rightarrow> string list" where
  "classList_add c cl = (if c \<in> set cl then cl else cl @ [c])"

definition filterItem :: "string option \<Rightarrow> photo_item \<Rightarrow> photo_item" where
  "filterItem f item =
     (let shouldShow = (f = Some ''all'' \<or> category item = f)
      in if shouldShow
         then item\<lparr>classList := classList_remove ''hidden'' (classList item),
                   item_animation := ''fadeInUp 0.5s ease forwards''\<rparr>
         else item\<lparr>classList := classList_add ''hidden'' (classList item),
                   item_animation := ''fadeOutDown 0.3s ease forwards''\<rparr>)"

text \<open>\<open>f\<close> is \<^verbatim>\<open>e.target.dataset.filter\<close>, \<open>None\<close> when the button has no such attribute.\<close>

definition filterPhotos :: "string option \<Rightarrow> gallery \<Rightarrow> gallery" where
  "filterPhotos f g = g\<lparr>currentFilter := f, photoItems := map (filterItem f) (photoItems g)\<rparr>"

definition visible :: "photo_item \<Rightarrow> bool" where
  "visible item = (''hidden'' \<notin> set (classList item))"








definition mk_item :: "string \<Rightarrow> string \<Rightarrow> string \<Rightarrow> photo_item" where
  "mk_item cat t txt =
     \<lparr>category = Some cat, classList = [''photo-item''], item_animation = [],
      title = t, likesText = txt, likeButton_animation = []\<rparr>"

definition empty_storage :: storage where
  "empty_storage = \<lparr>theme_item = None, photoLikes_item = None\<rparr>"

section \<open>GalleryManager: photo upload\<close>

record image_file =
  file_type :: string
  file_size :: nat

definition allowedTypes :: "string list" where
  "allowedTypes = [''image/jpeg'', ''image/jpg'', ''image/png'', ''image/gif'', ''image/webp'']"

definition maxSize :: nat where
  "maxSize = 10 * 1024 * 1024"

definition invalid_type_message :: string where
  "invalid_type_message = ''Invalid file type. Please upload JPEG, PNG, GIF, or WebP images only.''"

definition too_large_message :: string where
  "too_large_message = ''File too large. Please upload images smaller than 10MB.''"

text \<open>\<^verbatim>\<open>validateImageFile\<close> returns \<^verbatim>\<open>true\<close> or throws an \<^verbatim>\<open>Error\<close> with a message (\<open>Inl\<close>).\<close>

definition validateImageFile :: "image_file \<Rightarrow> string + bool" where
  "validateImageFile f =
     (if file_type f \<notin> set allowedTypes then Inl invalid_type_message
      else if file_size f > maxSize then Inl too_large_message
      else Inr True)"

text \<open>
  The placeholder's inline style and content, the notices raised by \<^verbatim>\<open>showError\<close>, the
  display style of the loading indicator (which the markup is taken to provide), and the
  number of hidden file inputs attached to the body. \<open>notices\<close> lists the messages in
  the order shown; the timers that dismiss a notice or clear an animation style are
  left out.
\<close>

record placeholder =
  backgroundImage :: string
  backgroundSize :: string
  backgroundPosition :: string
  innerHTML :: string
  color :: string
  ph_animation :: string

record upload_page =
  target :: placeholder
  notices :: "string list"
  loading_display :: string
  body_inputs :: nat

text \<open>
  What the file picker does: it fires \<^verbatim>\<open>change\<close> with \<^verbatim>\<open>files[0]\<close> (\<open>None\<close> when the
  list is empty) or \<^verbatim>\<open>cancel\<close>. What the FileReader does afterwards: \<^verbatim>\<open>onload\<close> with
  the data URI or \<^verbatim>\<open>onerror\<close>.
\<close>

datatype picker = Change "image_file option" | Cancel

datatype reader = Load string | ReadError

definition showError :: "string \<Rightarrow> upload_page \<Rightarrow> upload_page" where
  "showError message pg = pg\<lparr>notices := notices pg @ [message]\<rparr>"

definition displayUploadedPhoto :: "string \<Rightarrow> placeholder \<Rightarrow> placeholder" where
  "displayUploadedPhoto imageSrc ph =
     ph\<lparr>backgroundImage := ''url('' @ imageSrc @ '')'',
        backgroundSize := ''cover'',
        backgroundPosition := ''center'',
        innerHTML := [],
        color := ''transparent'',
        ph_animation := ''pulse 0.6s ease''\<rparr>"

text \<open>The promise around the picker: the chosen file, or the message of the rejection.\<close>

definition pick_file :: "picker \<Rightarrow> string + image_file" where
  "pick_file pk =
     (case pk of
        Change (Some f) \<Rightarrow>
          (case validateImageFile f of Inl message \<Rightarrow> Inl message | Inr _ \<Rightarrow> Inr f)
      | Change None \<Rightarrow> Inl ''No file selected''
      | Cancel \<Rightarrow> Inl ''Upload cancelled'')"

definition handlePhotoUpload :: "picker \<Rightarrow> reader \<Rightarrow> upload_page \<Rightarrow> upload_page" where
  "handlePhotoUpload pk rd pg =
     (let pg1 = pg\<lparr>body_inputs := body_inputs pg + 1\<rparr>
      in case pick_file pk of
           Inl message \<Rightarrow> showError message pg1
         | Inr f \<Rightarrow>
             (let pg2 = pg1\<lparr>body_inputs := body_inputs pg1 - 1, loading_display := ''block''\<rparr>
              in case rd of
                   Load result \<Rightarrow>
                     pg2\<lparr>target := displayUploadedPhoto result (target pg2),
                         loading_display := ''none''\<rparr>
                 | ReadError \<Rightarrow>
                     (showError ''Failed to read file. Please try again.'' pg2)
                       \<lparr>loading_display := ''none''\<rparr>))"

definition blank_page :: upload_page where
  "blank_page =
     \<lparr>target = \<lparr>backgroundImage = [], backgroundSize = [], backgroundPosition = [],
                innerHTML = ''Click to upload'', color = [], ph_animation = []\<rparr>,
      notices = [], loading_display = ''none'', body_inputs = 0\<rparr>"

section \<open>GalleryManager: the photo modal\<close>

text \<open>
  The elements that \<^verbatim>\<open>createPhotoModal\<close> builds, each with its parent inside the
  overlay. An event fired at an element visits the listeners of the element and of its
  ancestors in this order (bubbling).
\<close>

datatype modal_node = ModalRoot | Backdrop | Content | CloseBtn | ModalImage





datatype modal_event = Click modal_node | Keydown modal_node string








section \<open>PerformanceManager: optimizeImage\<close>




section \<open>Runs and sample pages used in the statements\<close>

text \<open>A sequence of \<^verbatim>\<open>filterPhotos\<close> calls, in order.\<close>

definition filter_run :: "gallery \<Rightarrow> string option list \<Rightarrow> gallery" where
  "filter_run g fs = foldl (\<lambda>g f. filterPhotos f g) g fs"





definition png_10MiB :: image_file where
  "png_10MiB = \<lparr>file_type = ''image/png'', file_size = 10485760\<rparr>"

definition png_15MB :: image_file where
  "png_15MB = \<lparr>file_type = ''image/png'', file_size = 15000000\<rparr>"

section \<open>Verified properties: ThemeManager\<close>

lemma truthy_applyTheme: "t \<noteq> [] \<Longrightarrow> truthy (theme_item (localStorage (applyTheme t b)))"
  by (simp add: applyTheme_def truthy_def)

lemma stored_ThemeManager: "truthy (theme_item (localStorage (doc (ThemeManager b))))"
  by (simp add: ThemeManager_def Let_def truthy_applyTheme or_else_def split: option.splits)

lemma stored_theme_step:
  "truthy (theme_item (localStorage (doc m))) \<Longrightarrow> truthy (theme_item (localStorage (doc (theme_step m e))))"
  by (cases e) (auto simp: toggleTheme_def systemThemeChange_def Let_def truthy_applyTheme applyTheme_def truthy_def)

lemma stored_theme_run:
  "truthy (theme_item (localStorage (doc m))) \<Longrightarrow> truthy (theme_item (localStorage (doc (theme_run m es))))"
  unfolding theme_run_def
  by (induction es arbitrary: m) (simp_all add: stored_theme_step)




text \<open>
  C6: from a current theme of \<^verbatim>\<open>light\<close> or of \<^verbatim>\<open>dark\<close>, two calls of
  \<^verbatim>\<open>toggleTheme\<close> restore the theme: the manager's field, the attribute and the stored
  flag all carry the original theme again.
\<close>

theorem toggleTheme_involution:
  assumes "currentTheme m = ''light'' \<or> currentTheme m = ''dark''"
  shows "currentTheme (toggleTheme (toggleTheme m)) = currentTheme m
     \<and> data_theme (doc (toggleTheme (toggleTheme m))) = Some (currentTheme m)
     \<and> theme_item (localStorage (doc (toggleTheme (toggleTheme m)))) = Some (currentTheme m)"
  using assms by (auto simp: toggleTheme_def applyTheme_def Let_def)

theorem toggleTheme_involution_witness:
  "currentTheme (toggleTheme (toggleTheme (ThemeManager (fresh_browser None None)))) = ''light''
   \<and> currentTheme (toggleTheme (ThemeManager (fresh_browser None None))) = ''dark''"
proof -
  have l: "currentTheme (ThemeManager (fresh_browser None None)) = ''light''"
    by (simp add: fresh_browser_def ThemeManager_def or_else_def Let_def)
  from l toggleTheme_involution [of "ThemeManager (fresh_browser None None)"]
  show ?thesis by (simp add: toggleTheme_def Let_def)
qed

text \<open>
  C9: in every state reached from a constructed ThemeManager by toggle clicks, system
  preference changes and timers, a theme is persisted, so a further change of the
  system preference leaves the applied theme as it is.
\<close>

theorem system_change_keeps_theme:
  "truthy (theme_item (localStorage (doc (theme_run (ThemeManager b) es))))
   \<and> applied (theme_step (theme_run (ThemeManager b) es) (SystemChange matches))
       = applied (theme_run (ThemeManager b) es)"
proof -
  have t: "truthy (theme_item (localStorage (doc (theme_run (ThemeManager b) es))))"
    by (rule stored_theme_run [OF stored_ThemeManager])
  then show ?thesis
    by (simp add: systemThemeChange_def applied_def)
qed

theorem system_change_keeps_theme_witness:
  "applied (theme_step (theme_run (ThemeManager (fresh_browser (Some False) None)) [ToggleClick, TransitionTimer, SystemChange False]) (SystemChange True))
     = (''dark'', Some ''dark'', Some Sun, Some ''dark'')"
  using system_change_keeps_theme [of "fresh_browser (Some False) None" "[ToggleClick, TransitionTimer, SystemChange False]" True]
  by (simp add: theme_run_def fresh_browser_def ThemeManager_def or_else_def applyTheme_def
      toggleTheme_def systemThemeChange_def truthy_def applied_def updateThemeIcon_def Let_def)

section \<open>Verified properties: reading back a like label\<close>




















section \<open>Verified properties: filtering\<close>

lemma visible_filterItem:
  "visible (filterItem f item) = (f = Some ''all'' \<or> category item = f)"
  by (simp add: visible_def filterItem_def classList_remove_def classList_add_def Let_def)

lemma category_filterItem: "category (filterItem f item) = category item"
  by (simp add: filterItem_def Let_def)

lemma filter_run_items:
  "length (photoItems (filter_run g fs)) = length (photoItems g)
   \<and> map category (photoItems (filter_run g fs)) = map category (photoItems g)"
  unfolding filter_run_def
  by (induction fs arbitrary: g) (simp_all add: filterPhotos_def category_filterItem comp_def)

text \<open>
  C2: after any sequence of \<^verbatim>\<open>filterPhotos\<close> calls that ends with the filter \<open>f\<close>, a
  photo entry is visible (its class list has no \<^verbatim>\<open>hidden\<close>) exactly when \<open>f\<close> is
  \<^verbatim>\<open>all\<close> or the entry's category equals \<open>f\<close>; the earlier calls do not matter.
\<close>

theorem filterPhotos_visible:
  assumes "i < length (photoItems g)"
  shows "visible (photoItems (filter_run g (fs @ [f])) ! i)
           = (f = Some ''all'' \<or> category (photoItems g ! i) = f)"
proof -
  let ?g = "filter_run g fs"
  have len: "i < length (photoItems ?g)" using assms filter_run_items by simp
  have "map category (photoItems ?g) ! i = map category (photoItems g) ! i"
    using filter_run_items by simp
  with len assms have cat: "category (photoItems ?g ! i) = category (photoItems g ! i)"
    by simp
  have "filter_run g (fs @ [f]) = filterPhotos f ?g" by (simp add: filter_run_def)
  with len cat show ?thesis by (simp add: filterPhotos_def visible_filterItem)
qed

theorem filterPhotos_visible_witness:
  "visible (photoItems (filter_run
       \<lparr>photoItems = [mk_item ''portrait'' ''A'' ''3 likes'', mk_item ''landscape'' ''B'' ''0 likes''],
        currentFilter = Some ''all'', store = empty_storage\<rparr>
       [Some ''landscape'', Some ''portrait'']) ! 0)
   \<and> \<not> visible (photoItems (filter_run
       \<lparr>photoItems = [mk_item ''portrait'' ''A'' ''3 likes'', mk_item ''landscape'' ''B'' ''0 likes''],
        currentFilter = Some ''all'', store = empty_storage\<rparr>
       [Some ''landscape'', Some ''portrait'']) ! 1)"
  using filterPhotos_visible [of 0 "\<lparr>photoItems = [mk_item ''portrait'' ''A'' ''3 likes'', mk_item ''landscape'' ''B'' ''0 likes''],
        currentFilter = Some ''all'', store = empty_storage\<rparr>" "[Some ''landscape'']" "Some ''portrait''"]
    filterPhotos_visible [of 1 "\<lparr>photoItems = [mk_item ''portrait'' ''A'' ''3 likes'', mk_item ''landscape'' ''B'' ''0 likes''],
        currentFilter = Some ''all'', store = empty_storage\<rparr>" "[Some ''landscape'']" "Some ''portrait''"]
  by (simp add: mk_item_def)

section \<open>Verified properties: likes\<close>












section \<open>Verified properties: restoring the likes on page load\<close>









section \<open>Verified properties: photo upload\<close>

lemma pick_file_Change:
  "pick_file (Change (Some f)) =
     (if file_type f \<notin> set allowedTypes then Inl invalid_type_message
      else if file_size f > maxSize then Inl too_large_message else Inr f)"
  by (simp add: pick_file_def validateImageFile_def)

text \<open>
  C1, as the specification states it: every file of an allowed type and of at most
  10 MiB is uploaded and sets the placeholder's image source. It fails when the
  browser cannot read the file: a PNG of exactly 10 MiB passes the validation, the
  reader reports an error, a notice is shown and no image source is set.
\<close>

theorem handlePhotoUpload_unread_counterexample:
  "file_type png_10MiB \<in> set allowedTypes \<and> file_size png_10MiB \<le> 10 * 1024 * 1024
   \<and> validateImageFile png_10MiB = Inr True
   \<and> backgroundImage (target (handlePhotoUpload (Change (Some png_10MiB)) ReadError blank_page)) = []
   \<and> notices (handlePhotoUpload (Change (Some png_10MiB)) ReadError blank_page)
        = [''Failed to read file. Please try again.'']"
  by (simp add: png_10MiB_def allowedTypes_def validateImageFile_def maxSize_def
      handlePhotoUpload_def pick_file_def showError_def blank_page_def Let_def)

text \<open>
  C1, amended: a file of an allowed type and of at most 10 MiB (boundary included)
  passes the validation; when the browser then reads it, the placeholder's image
  source is set to the data URI, and when the read fails a notice is shown and the
  placeholder is left as it was. When the type is not allowed, when the file is larger
  than 10 MiB, when no file is selected and when the picker is cancelled, the
  descriptive error is shown as a notice and the placeholder is left as it was.
\<close>

theorem handlePhotoUpload_outcome:
  "(file_type f \<in> set allowedTypes \<and> file_size f \<le> 10 * 1024 * 1024 \<longrightarrow>
      target (handlePhotoUpload (Change (Some f)) (Load src) pg) = displayUploadedPhoto src (target pg)
      \<and> backgroundImage (target (handlePhotoUpload (Change (Some f)) (Load src) pg)) = ''url('' @ src @ '')''
      \<and> notices (handlePhotoUpload (Change (Some f)) (Load src) pg) = notices pg
      \<and> target (handlePhotoUpload (Change (Some f)) ReadError pg) = target pg
      \<and> notices (handlePhotoUpload (Change (Some f)) ReadError pg)
           = notices pg @ [''Failed to read file. Please try again.''])
   \<and> (file_type f \<notin> set allowedTypes \<longrightarrow>
      target (handlePhotoUpload (Change (Some f)) rd pg) = target pg
      \<and> notices (handlePhotoUpload (Change (Some f)) rd pg) = notices pg @ [invalid_type_message])
   \<and> (file_type f \<in> set allowedTypes \<and> file_size f > 10 * 1024 * 1024 \<longrightarrow>
      target (handlePhotoUpload (Change (Some f)) rd pg) = target pg
      \<and> notices (handlePhotoUpload (Change (Some f)) rd pg) = notices pg @ [too_large_message])
   \<and> target (handlePhotoUpload (Change None) rd pg) = target pg
   \<and> notices (handlePhotoUpload (Change None) rd pg) = notices pg @ [''No file selected'']
   \<and> target (handlePhotoUpload Cancel rd pg) = target pg
   \<and> notices (handlePhotoUpload Cancel rd pg) = notices pg @ [''Upload cancelled'']"
proof -
  have none: "pick_file (Change None) = Inl ''No file selected''"
    and cancel: "pick_file Cancel = Inl ''Upload cancelled''"
    by (simp_all add: pick_file_def)
  show ?thesis
    by (simp add: handlePhotoUpload_def pick_file_Change none cancel showError_def maxSize_def
        displayUploadedPhoto_def Let_def)
qed

theorem handlePhotoUpload_outcome_witness:
  "backgroundImage (target (handlePhotoUpload (Change (Some png_10MiB)) (Load ''data:image/png;base64,AAAA'') blank_page))
      = ''url(data:image/png;base64,AAAA)''
   \<and> target (handlePhotoUpload (Change (Some png_15MB)) (Load ''data:image/png;base64,AAAA'') blank_page)
      = target blank_page
   \<and> notices (handlePhotoUpload (Change (Some png_15MB)) (Load ''data:image/png;base64,AAAA'') blank_page)
      = [too_large_message]"
proof -
  let ?src = "''data:image/png;base64,AAAA''"
  have a: "file_type png_10MiB \<in> set allowedTypes \<and> file_size png_10MiB \<le> 10 * 1024 * 1024"
    by (simp add: png_10MiB_def allowedTypes_def)
  have b: "file_type png_15MB \<in> set allowedTypes \<and> file_size png_15MB > 10 * 1024 * 1024"
    by (simp add: png_15MB_def allowedTypes_def)
  from a handlePhotoUpload_outcome [of png_10MiB ?src blank_page "Load ?src"]
  have "backgroundImage (target (handlePhotoUpload (Change (Some png_10MiB)) (Load ?src) blank_page))
          = ''url('' @ ?src @ '')''"
    by blast
  moreover from b handlePhotoUpload_outcome [of png_15MB ?src blank_page "Load ?src"]
  have "target (handlePhotoUpload (Change (Some png_15MB)) (Load ?src) blank_page) = target blank_page
        \<and> notices (handlePhotoUpload (Change (Some png_15MB)) (Load ?src) blank_page)
            = notices blank_page @ [too_large_message]"
    by blast
  ultimately show ?thesis by (simp add: blank_page_def)
qed

section \<open>Verified properties: the photo modal\<close>








section \<open>Verified properties: optimizeImage\<close>







end
